theory Spec2Isabelle
  imports Main "HOL-Library.Sublist" "HOL-Library.Word"
begin

section \<open>Voice catalogue: the data model\<close>

text \<open>
  The voice objects that \<^verbatim>\<open>filter_voice_models\<close> (src/test_speechify_simple.py, lines
  148 to 164) walks over: a voice has a gender, a list of tags and a list of models; a
  model has a name and a list of languages; a language carries a locale string. The
  attribute \<^verbatim>\<open>locale\<close> is called \<open>lang_locale\<close> here, the source's name being reserved.

  Strings are lists of 8-bit characters and are read as ASCII text, which is what the
  catalogue's genders, tags and locales are.
\<close>

record language =
  lang_locale :: string

record model =
  name :: string
  languages :: "language list"

record voice =
  gender :: string
  tags :: "string list"
  models :: "model list"

subsection \<open>\<^verbatim>\<open>str.lower\<close> on ASCII text\<close>

text \<open>
  Python's \<^verbatim>\<open>str.lower()\<close> maps the letters A to Z (code points 65 to 90) to a to z (add
  32) and leaves every other ASCII character as it is.
\<close>

definition lower_char :: "char \<Rightarrow> char" where
  "lower_char c =
     (if (65::nat) \<le> of_char c \<and> of_char c \<le> (90::nat)
      then char_of (of_char c + (32::nat)) else c)"

definition lower :: "string \<Rightarrow> string" where
  "lower s = map lower_char s"

section \<open>\<^verbatim>\<open>filter_voice_models\<close>\<close>

text \<open>
  The keyword arguments \<^verbatim>\<open>gender\<close>, \<^verbatim>\<open>locale\<close> and \<^verbatim>\<open>tags\<close> default to \<^verbatim>\<open>None\<close>: they are
  options here. Each of the three guards of the loop body starts with a truthiness test
  (\<^verbatim>\<open>if gender and ...\<close>, \<^verbatim>\<open>if locale:\<close>, \<^verbatim>\<open>if tags:\<close>), which \<^verbatim>\<open>None\<close>, the empty string and
  the empty list all fail. A guard that holds runs \<^verbatim>\<open>continue\<close>.
\<close>

text \<open>Line 151: \<^verbatim>\<open>gender and voice.gender.lower() != gender.lower()\<close>.\<close>

fun gender_mismatch :: "string option \<Rightarrow> voice \<Rightarrow> bool" where
  "gender_mismatch None voice = False"
| "gender_mismatch (Some g) voice = (g \<noteq> [] \<and> lower (gender voice) \<noteq> lower g)"

text \<open>
  Lines 153 to 158: \<^verbatim>\<open>locale\<close> is truthy and
  \<^verbatim>\<open>not any(any(lang.locale == locale for lang in model.languages) for model in voice.models)\<close>.
\<close>

fun locale_missing :: "string option \<Rightarrow> voice \<Rightarrow> bool" where
  "locale_missing None voice = False"
| "locale_missing (Some loc) voice =
     (loc \<noteq> [] \<and>
      \<not> list_ex (\<lambda>model. list_ex (\<lambda>lang. lang_locale lang = loc) (languages model))
          (models voice))"

text \<open>
  Lines 159 to 161: \<^verbatim>\<open>tags\<close> is truthy and \<^verbatim>\<open>not all(tag in voice.tags for tag in tags)\<close>.
\<close>

fun tags_missing :: "string list option \<Rightarrow> voice \<Rightarrow> bool" where
  "tags_missing None voice = False"
| "tags_missing (Some ts) voice =
     (ts \<noteq> [] \<and> \<not> list_all (\<lambda>tag. tag \<in> set (tags voice)) ts)"

text \<open>
  The loop over \<^verbatim>\<open>voices\<close>, with the list \<^verbatim>\<open>results\<close> as its state. The three guards are
  tried in the source's order; a voice that passes them has the name of each of its
  models appended (lines 162 and 163).
\<close>

fun filter_loop ::
  "voice list \<Rightarrow> string option \<Rightarrow> string option \<Rightarrow> string list option \<Rightarrow>
   string list \<Rightarrow> string list" where
  "filter_loop [] g loc ts results = results"
| "filter_loop (voice # rest) g loc ts results =
     (if gender_mismatch g voice then filter_loop rest g loc ts results
      else if locale_missing loc voice then filter_loop rest g loc ts results
      else if tags_missing ts voice then filter_loop rest g loc ts results
      else filter_loop rest g loc ts
             (fold (\<lambda>model res. res @ [name model]) (models voice) results))"

definition filter_voice_models ::
  "voice list \<Rightarrow> string option \<Rightarrow> string option \<Rightarrow> string list option \<Rightarrow> string list" where
  "filter_voice_models voices g loc ts = filter_loop voices g loc ts []"

subsection \<open>The criteria in the specification's words\<close>

text \<open>
  Section 4.1 of the specification describes the three criteria. They are written down
  here independently of the loop, to be compared with it. A criterion that is omitted
  (or given as an empty value) always passes.

  Two characters are the same letter when they are equal or one is the upper-case form
  of the other; two strings are equal ignoring case when they agree letter by letter.
\<close>

definition ascii_upper :: "char \<Rightarrow> bool" where
  "ascii_upper c = ((65::nat) \<le> of_char c \<and> of_char c \<le> (90::nat))"

definition same_letter :: "char \<Rightarrow> char \<Rightarrow> bool" where
  "same_letter c d =
     (c = d \<or> (ascii_upper c \<and> (of_char d :: nat) = of_char c + 32)
            \<or> (ascii_upper d \<and> (of_char c :: nat) = of_char d + 32))"

definition equal_ignoring_case :: "string \<Rightarrow> string \<Rightarrow> bool" where
  "equal_ignoring_case s t = list_all2 same_letter s t"

definition gender_criterion :: "string option \<Rightarrow> voice \<Rightarrow> bool" where
  "gender_criterion g v =
     (case g of None \<Rightarrow> True
      | Some s \<Rightarrow> s = [] \<or> equal_ignoring_case (gender v) s)"

definition locale_criterion :: "string option \<Rightarrow> voice \<Rightarrow> bool" where
  "locale_criterion loc v =
     (case loc of None \<Rightarrow> True
      | Some s \<Rightarrow> s = [] \<or> (\<exists>m \<in> set (models v). \<exists>l \<in> set (languages m). lang_locale l = s))"

definition tags_criterion :: "string list option \<Rightarrow> voice \<Rightarrow> bool" where
  "tags_criterion ts v =
     (case ts of None \<Rightarrow> True
      | Some rs \<Rightarrow> rs = [] \<or> (\<forall>tag \<in> set rs. tag \<in> set (tags v)))"

definition qualifies ::
  "string option \<Rightarrow> string option \<Rightarrow> string list option \<Rightarrow> voice \<Rightarrow> bool" where
  "qualifies g loc ts v =
     (gender_criterion g v \<and> locale_criterion loc v \<and> tags_criterion ts v)"

definition model_names :: "voice \<Rightarrow> string list" where
  "model_names v = map name (models v)"

text \<open>The two voices of the repository's own test (lines 129 to 145).\<close>

definition mock_voice1 :: voice where
  "mock_voice1 =
     \<lparr>gender = ''male'', tags = [''timbre:deep'', ''accent:american''],
      models = [\<lparr>name = ''voice1'', languages = [\<lparr>lang_locale = ''en-US''\<rparr>]\<rparr>]\<rparr>"

definition mock_voice2 :: voice where
  "mock_voice2 =
     \<lparr>gender = ''female'', tags = [''timbre:bright''],
      models = [\<lparr>name = ''voice2'', languages = [\<lparr>lang_locale = ''fr-FR''\<rparr>]\<rparr>]\<rparr>"

text \<open>
  Two voices that offer a model of the same name, as the voices of a catalogue do when
  they share a synthesis engine.
\<close>

definition engine_voice_a :: voice where
  "engine_voice_a =
     \<lparr>gender = ''male'', tags = [''timbre:deep''],
      models = [\<lparr>name = ''simba-english'', languages = [\<lparr>lang_locale = ''fr-FR''\<rparr>]\<rparr>]\<rparr>"

definition engine_voice_b :: voice where
  "engine_voice_b =
     \<lparr>gender = ''female'', tags = [''timbre:bright''],
      models = [\<lparr>name = ''simba-english'', languages = [\<lparr>lang_locale = ''en-US''\<rparr>]\<rparr>]\<rparr>"

section \<open>The request handler \<^verbatim>\<open>generate_news_audio\<close>\<close>

text \<open>
  src/backend.py, lines 16 to 69. The handler gathers and summarises the news (lines 19
  to 36, the work of collaborators that are not described here), asks Speechify for the
  audio and falls back to ElevenLabs (lines 38 to 56), then reads the file whose path it
  was given and answers with its bytes (lines 58 to 66). Every exception is turned into
  an HTTP error 500 (lines 68 and 69).

  The exceptions are the instances of Python's \<^verbatim>\<open>Exception\<close>, which is what both
  \<^verbatim>\<open>except\<close> clauses catch; \<open>str\<close> is the text \<^verbatim>\<open>str(e)\<close> of one. Signals that derive from
  \<^verbatim>\<open>BaseException\<close> alone (an interrupt of the interpreter) are not errors of a provider
  and are left out.
\<close>

type_synonym byte = "8 word"

datatype exn_class = ValueError | IOError | OtherException

datatype exn = Exn exn_class string

fun str :: "exn \<Rightarrow> string" where
  "str (Exn c msg) = msg"

datatype 'a outcome = Returns 'a | Raises exn

text \<open>
  \<^verbatim>\<open>repr\<close> of an ASCII string, which Python puts after the text of an \<^verbatim>\<open>OSError\<close>: in
  single quotes, or in double quotes when the string has a single quote and no double
  one; the quote in use and the backslash are escaped with a backslash, tab, newline and
  carriage return are written \<^verbatim>\<open>\t\<close>, \<^verbatim>\<open>\n\<close> and \<^verbatim>\<open>\r\<close>, and any other character that
  is not printable is written \<^verbatim>\<open>\x\<close> and two hexadecimal digits.
\<close>

definition hex_digit :: "nat \<Rightarrow> char" where
  "hex_digit n = ''0123456789abcdef'' ! (n mod 16)"

definition repr_char :: "char \<Rightarrow> char \<Rightarrow> string" where
  "repr_char q c =
     (if c = q \<or> c = CHR 0x5C then [CHR 0x5C, c]
      else if c = CHR 0x09 then [CHR 0x5C, CHR ''t'']
      else if c = CHR 0x0A then [CHR 0x5C, CHR ''n'']
      else if c = CHR 0x0D then [CHR 0x5C, CHR ''r'']
      else if (of_char c :: nat) < 32 \<or> (127::nat) \<le> of_char c
        then [CHR 0x5C, CHR ''x'', hex_digit (of_char c div 16), hex_digit (of_char c mod 16)]
      else [c])"

definition repr :: "string \<Rightarrow> string" where
  "repr s =
     (let q = (if CHR 0x27 \<in> set s \<and> CHR 0x22 \<notin> set s then CHR 0x22 else CHR 0x27)
      in q # concat (map (repr_char q) s) @ [q])"

text \<open>
  The file system, as the process sees it, maps a path to what is there: a file that
  can be read, with its bytes; a file that is there but may not be read; a directory.
  \<^verbatim>\<open>Path(p).exists()\<close> holds of all three. \<^verbatim>\<open>open(p, "rb").read()\<close> returns the bytes of a
  readable file and raises an \<^verbatim>\<open>OSError\<close> (of which \<^verbatim>\<open>IOError\<close> is another name)
  otherwise; the text of the error is its number, its reason and the \<^verbatim>\<open>repr\<close> of the path.
\<close>

datatype node = RegularFile "byte list" | Unreadable | Directory

type_synonym filesystem = "string \<Rightarrow> node option"

definition path_exists :: "filesystem \<Rightarrow> string \<Rightarrow> bool" where
  "path_exists fs p = (fs p \<noteq> None)"

definition read_binary :: "filesystem \<Rightarrow> string \<Rightarrow> byte list outcome" where
  "read_binary fs p =
     (case fs p of
        Some (RegularFile bs) \<Rightarrow> Returns bs
      | Some Unreadable \<Rightarrow> Raises (Exn IOError (''[Errno 13] Permission denied: '' @ repr p))
      | Some Directory \<Rightarrow> Raises (Exn IOError (''[Errno 21] Is a directory: '' @ repr p))
      | None \<Rightarrow>
          Raises (Exn IOError (''[Errno 2] No such file or directory: '' @ repr p)))"

text \<open>
  The three speech functions come from utils.py, which is not among the sources: they
  are parameters. Each takes the text (its other arguments are constants of the call
  site) and the file system, and either returns a value for \<^verbatim>\<open>audio_path\<close> (a string or
  \<^verbatim>\<open>None\<close>) or raises; it may have written files. \<^verbatim>\<open>tts_to_audio\<close> is imported on line 8.
\<close>

type_synonym provider = "string \<Rightarrow> filesystem \<Rightarrow> string option outcome \<times> filesystem"

datatype provider_name = Speechify | ElevenLabs | GTTS

record tts_functions =
  text_to_audio_speechify :: provider
  text_to_audio_elevenlabs_sdk :: provider
  tts_to_audio :: provider

text \<open>
  The state of one request: the files, the speech functions called so far and the
  lines printed.
\<close>

record world =
  files :: filesystem
  calls :: "provider_name list"
  stdout :: "string list"

definition invoke ::
  "provider_name \<Rightarrow> provider \<Rightarrow> string \<Rightarrow> world \<Rightarrow> string option outcome \<times> world" where
  "invoke p f news_text w =
     (case f news_text (files w) of
        (r, fs') \<Rightarrow> (r, w\<lparr>files := fs', calls := calls w @ [p]\<rparr>))"

text \<open>
  Lines 38 to 56: \<^verbatim>\<open>text_to_audio_speechify\<close> inside \<^verbatim>\<open>try\<close>; the handler
  \<^verbatim>\<open>except (ValueError, Exception) as e\<close> prints a line and calls
  \<^verbatim>\<open>text_to_audio_elevenlabs_sdk\<close>, whose own exception is not caught here.
\<close>

definition speech_with_fallback ::
  "tts_functions \<Rightarrow> string \<Rightarrow> world \<Rightarrow> string option outcome \<times> world" where
  "speech_with_fallback T news_summary w =
     (case invoke Speechify (text_to_audio_speechify T) news_summary w of
        (Returns audio_path, w1) \<Rightarrow> (Returns audio_path, w1)
      | (Raises e, w1) \<Rightarrow>
          invoke ElevenLabs (text_to_audio_elevenlabs_sdk T) news_summary
            (w1\<lparr>stdout := stdout w1 @
               [''Speechify TTS failed, falling back to ElevenLabs: '' @ str e]\<rparr>))"

text \<open>
  What the caller gets: the \<^verbatim>\<open>Response\<close> of line 62 with the bytes of the file, the
  \<^verbatim>\<open>HTTPException\<close> of line 69 with its status code and detail, or nothing: when the test
  of line 58 fails the function ends without a \<^verbatim>\<open>return\<close> and its value is \<^verbatim>\<open>None\<close>.
\<close>

datatype response = Response "byte list" | ReturnsNone | HTTPException nat string

text \<open>
  The handler from line 18 on. \<open>summary\<close> is the outcome of lines 19 to 36: the text of
  the broadcast, or the exception one of the collaborators raised.
\<close>

definition generate_news_audio ::
  "tts_functions \<Rightarrow> string outcome \<Rightarrow> world \<Rightarrow> response \<times> world" where
  "generate_news_audio T summary w =
     (case summary of
        Raises e \<Rightarrow> (HTTPException 500 (str e), w)
      | Returns news_summary \<Rightarrow>
          (case speech_with_fallback T news_summary w of
             (Raises e, w') \<Rightarrow> (HTTPException 500 (str e), w')
           | (Returns audio_path, w') \<Rightarrow>
               (case audio_path of
                  None \<Rightarrow> (ReturnsNone, w')
                | Some p \<Rightarrow>
                    if p \<noteq> [] \<and> path_exists (files w') p
                    then (case read_binary (files w') p of
                            Returns audio_bytes \<Rightarrow> (Response audio_bytes, w')
                          | Raises e \<Rightarrow> (HTTPException 500 (str e), w'))
                    else (ReturnsNone, w'))))"

subsection \<open>What a speech function promises\<close>

text \<open>
  Modelled from the spec: the speech functions are defined in utils.py, which is not
  among the sources, so what they promise is taken from the specification. Section 4.4:
  on success the path that is returned refers to a fully written, readable, non-empty
  file. The repository's tests assert the same of
  \<^verbatim>\<open>text_to_audio_speechify\<close> (src/test_speechify_migration.py, lines 59, 60 and 264).
\<close>

definition honours_persistence_contract :: "provider \<Rightarrow> bool" where
  "honours_persistence_contract f =
     (\<forall>txt fs r fs'. f txt fs = (Returns r, fs') \<longrightarrow>
        (\<exists>p bs. r = Some p \<and> p \<noteq> [] \<and> fs' p = Some (RegularFile bs) \<and> bs \<noteq> []))"

text \<open>
  Speech functions to run the handler on: one that writes a file and returns its path,
  one that raises, one that returns a value and writes nothing, one that writes a file
  and raises.
\<close>

definition writes_file :: "string \<Rightarrow> byte list \<Rightarrow> provider" where
  "writes_file p bs = (\<lambda>txt fs. (Returns (Some p), fs(p \<mapsto> RegularFile bs)))"

definition raises :: "exn \<Rightarrow> provider" where
  "raises e = (\<lambda>txt fs. (Raises e, fs))"



definition empty_world :: world where
  "empty_world = \<lparr>files = Map.empty, calls = [], stdout = []\<rparr>"

text \<open>
  Four settings of the speech functions: Speechify lacks its key and ElevenLabs
  delivers; Speechify delivers; both fail; Speechify cannot write its file (the disk is
  full) and ElevenLabs delivers.
\<close>

definition fallback_functions :: tts_functions where
  "fallback_functions =
     \<lparr>text_to_audio_speechify = raises (Exn ValueError ''Speechify API key is required''),
      text_to_audio_elevenlabs_sdk = writes_file ''audio/elevenlabs.mp3'' [73, 68, 51],
      tts_to_audio = writes_file ''audio/gtts.mp3'' [255, 251]\<rparr>"

definition primary_functions :: tts_functions where
  "primary_functions =
     \<lparr>text_to_audio_speechify = writes_file ''audio/speechify.mp3'' [73, 68, 51, 4],
      text_to_audio_elevenlabs_sdk = writes_file ''audio/elevenlabs.mp3'' [73, 68, 51],
      tts_to_audio = writes_file ''audio/gtts.mp3'' [255, 251]\<rparr>"


definition disk_full_functions :: tts_functions where
  "disk_full_functions =
     \<lparr>text_to_audio_speechify = raises (Exn IOError ''[Errno 28] No space left on device''),
      text_to_audio_elevenlabs_sdk = writes_file ''audio/elevenlabs.mp3'' [73, 68, 51],
      tts_to_audio = writes_file ''audio/gtts.mp3'' [255, 251]\<rparr>"

definition write_failing_functions :: tts_functions where
  "write_failing_functions =
     \<lparr>text_to_audio_speechify = raises (Exn ValueError ''Speechify API key is required''),
      text_to_audio_elevenlabs_sdk = raises (Exn IOError ''[Errno 13] Permission denied''),
      tts_to_audio = writes_file ''audio/gtts.mp3'' [255, 251]\<rparr>"



section \<open>The entry point \<^verbatim>\<open>text_to_audio_speechify\<close>\<close>

text \<open>
  Modelled from the spec: \<^verbatim>\<open>text_to_audio_speechify\<close> is defined in utils.py, which is not
  among the sources; only its callers and tests are. The specification calls it
  \<open>synthesize_primary\<close> (sections 4.2, 4.4 and 6): the credential is looked up first and
  its absence is a \<open>ConfigError\<close> "API key is required", signalled before any network
  call; then the remote call, whose failure is a \<open>ProviderError\<close>; then the audio is
  persisted, whose failure is an \<open>IOError\<close> (\<open>PersistError\<close> here); the result is the
  path. The test on line 74 of src/test_speechify_migration.py expects the message
  "Speechify API key is required".

  The remote service and the persistence are parameters; the second component of the
  result counts the network calls made.
\<close>

datatype tts_error = ConfigError string | ProviderError string | PersistError string

record synthesis_request =
  input_text :: string
  voice_id :: string
  model_id :: string
  audio_format :: string
  language_tag :: string
  output_dir :: string

definition synthesize_primary ::
  "string option \<Rightarrow> (string \<Rightarrow> synthesis_request \<Rightarrow> string + byte list) \<Rightarrow>
   (byte list \<Rightarrow> string \<Rightarrow> string \<Rightarrow> string + string) \<Rightarrow> synthesis_request \<Rightarrow>
   (tts_error + string) \<times> nat" where
  "synthesize_primary credential remote persist req =
     (case credential of
        None \<Rightarrow> (Inl (ConfigError ''Speechify API key is required''), 0)
      | Some key \<Rightarrow>
          (case remote key req of
             Inl msg \<Rightarrow> (Inl (ProviderError msg), 1)
           | Inr audio \<Rightarrow>
               (case persist audio (audio_format req) (output_dir req) of
                  Inl msg \<Rightarrow> (Inl (PersistError msg), 1)
                | Inr path \<Rightarrow> (Inr path, 1))))"

definition default_request :: "string \<Rightarrow> synthesis_request" where
  "default_request t =
     \<lparr>input_text = t, voice_id = ''scott'', model_id = ''simba-english'', audio_format = ''mp3'',
      language_tag = ''en-US'', output_dir = ''audio''\<rparr>"

section \<open>Properties of the loop\<close>

lemma of_char_lower_char:
  "(of_char (lower_char c) :: nat) =
     (if ascii_upper c then of_char c + 32 else of_char c)"
  by (simp add: lower_char_def ascii_upper_def)

lemma lower_char_eq_iff: "lower_char c = lower_char d \<longleftrightarrow> same_letter c d"
proof -
  have "lower_char c = lower_char d \<longleftrightarrow>
        (of_char (lower_char c) :: nat) = of_char (lower_char d)"
    by simp
  also have "\<dots> \<longleftrightarrow> same_letter c d"
    unfolding of_char_lower_char same_letter_def
    by (auto simp: ascii_upper_def)
  finally show ?thesis .
qed

lemma lower_eq_iff: "lower s = lower t \<longleftrightarrow> equal_ignoring_case s t"
proof -
  have "lower s = lower t \<longleftrightarrow> list_all2 (=) (map lower_char s) (map lower_char t)"
    by (simp add: lower_def list_all2_eq)
  also have "\<dots> \<longleftrightarrow> list_all2 (\<lambda>c d. lower_char c = lower_char d) s t"
    by (simp add: list_all2_map1 list_all2_map2)
  finally show ?thesis
    by (simp add: equal_ignoring_case_def lower_char_eq_iff)
qed

lemma gender_mismatch_iff: "gender_mismatch g v \<longleftrightarrow> \<not> gender_criterion g v"
  by (cases g) (simp_all add: gender_criterion_def lower_eq_iff)

lemma locale_missing_iff: "locale_missing loc v \<longleftrightarrow> \<not> locale_criterion loc v"
  by (cases loc) (simp_all add: locale_criterion_def list_ex_iff)

lemma tags_missing_iff: "tags_missing ts v \<longleftrightarrow> \<not> tags_criterion ts v"
  by (cases ts) (simp_all add: tags_criterion_def list_all_iff)

lemma fold_append_names:
  "fold (\<lambda>model res. res @ [name model]) ms results = results @ map name ms"
  by (induction ms arbitrary: results) simp_all

lemma filter_loop_results:
  "filter_loop vs g loc ts results = results @ filter_loop vs g loc ts []"
proof (induction vs arbitrary: results)
  case Nil
  show ?case by simp
next
  case (Cons v vs)
  have step: "filter_loop vs g loc ts (results @ map name (models v)) =
        results @ map name (models v) @ filter_loop vs g loc ts []"
    using Cons.IH [of "results @ map name (models v)"] by simp
  have step0: "filter_loop vs g loc ts (map name (models v)) =
        map name (models v) @ filter_loop vs g loc ts []"
    using Cons.IH [of "map name (models v)"] .
  show ?case
    using Cons.IH [of results] step step0
    by (simp add: fold_append_names)
qed

lemma filter_voice_models_Nil: "filter_voice_models [] g loc ts = []"
  by (simp add: filter_voice_models_def)

lemma filter_voice_models_Cons:
  "filter_voice_models (v # vs) g loc ts =
     (if qualifies g loc ts v then model_names v else []) @ filter_voice_models vs g loc ts"
  using filter_loop_results [of vs g loc ts "map name (models v)"]
  by (simp add: filter_voice_models_def qualifies_def model_names_def fold_append_names
      gender_mismatch_iff locale_missing_iff tags_missing_iff)

lemma filter_voice_models_single:
  "filter_voice_models [v] g loc ts = (if qualifies g loc ts v then model_names v else [])"
  by (simp add: filter_voice_models_Cons filter_voice_models_Nil)

lemma filter_voice_models_concat:
  "filter_voice_models vs g loc ts = concat (map model_names (filter (qualifies g loc ts) vs))"
  by (induction vs) (simp_all add: filter_voice_models_Nil filter_voice_models_Cons)

lemma filter_voice_models_append:
  "filter_voice_models (vs @ ws) g loc ts =
     filter_voice_models vs g loc ts @ filter_voice_models ws g loc ts"
  by (simp add: filter_voice_models_concat)

lemma qualifies_None: "qualifies None None None v"
  by (simp add: qualifies_def gender_criterion_def locale_criterion_def tags_criterion_def)

lemma qualifies_split:
  "qualifies g loc ts v \<longleftrightarrow>
     qualifies g None None v \<and> qualifies None loc None v \<and> qualifies None None ts v"
  by (simp add: qualifies_def gender_criterion_def locale_criterion_def tags_criterion_def)

lemma qualifies_drop:
  "qualifies g loc ts v \<Longrightarrow> qualifies None loc ts v"
  "qualifies g loc ts v \<Longrightarrow> qualifies g None ts v"
  "qualifies g loc ts v \<Longrightarrow> qualifies g loc None v"
  by (simp_all add: qualifies_def gender_criterion_def locale_criterion_def tags_criterion_def)

lemma set_filter_voice_models:
  "set (filter_voice_models vs g loc ts) =
     (\<Union>v \<in> {v \<in> set vs. qualifies g loc ts v}. set (model_names v))"
  by (auto simp: filter_voice_models_concat)

lemma filter_voice_models_subset_all:
  "set (filter_voice_models vs g loc ts) \<subseteq> set (filter_voice_models vs None None None)"
  by (auto simp: set_filter_voice_models qualifies_None)

lemma subseq_filter_voice_models:
  assumes "\<And>v. qualifies g loc ts v \<Longrightarrow> qualifies g' loc' ts' v"
  shows "subseq (filter_voice_models vs g loc ts) (filter_voice_models vs g' loc' ts')"
proof (induction vs)
  case Nil
  show ?case by (simp add: filter_voice_models_Nil)
next
  case (Cons v vs)
  show ?case
  proof (cases "qualifies g loc ts v")
    case True
    then have "qualifies g' loc' ts' v" by (rule assms)
    with True Cons show ?thesis
      by (simp add: filter_voice_models_Cons list_emb_append_mono)
  next
    case False
    with Cons show ?thesis
      by (auto simp: filter_voice_models_Cons intro: list_emb_prefix)
  qed
qed

lemma single_intersection:
  "set (filter_voice_models [v] g loc ts) =
     set (filter_voice_models [v] g None None) \<inter>
     set (filter_voice_models [v] None loc None) \<inter>
     set (filter_voice_models [v] None None ts)"
  using qualifies_split [of g loc ts v]
  by (auto simp: filter_voice_models_single)

lemma subset_intersection:
  "set (filter_voice_models vs g loc ts) \<subseteq>
     set (filter_voice_models vs g None None) \<inter>
     set (filter_voice_models vs None loc None) \<inter>
     set (filter_voice_models vs None None ts)"
  using qualifies_split [of g loc ts]
  by (auto simp: set_filter_voice_models)

lemma distinct_intersection:
  "distinct (filter_voice_models vs None None None) \<Longrightarrow>
   set (filter_voice_models vs g loc ts) =
     set (filter_voice_models vs g None None) \<inter>
     set (filter_voice_models vs None loc None) \<inter>
     set (filter_voice_models vs None None ts)"
proof (induction vs)
  case Nil
  show ?case by (simp add: filter_voice_models_Nil)
next
  case (Cons v vs)
  from Cons.prems have d: "distinct (filter_voice_models vs None None None)"
    and disj: "set (model_names v) \<inter> set (filter_voice_models vs None None None) = {}"
    by (simp_all add: filter_voice_models_Cons qualifies_None)
  have sub: "\<And>g loc ts. set (filter_voice_models vs g loc ts) \<subseteq>
      set (filter_voice_models vs None None None)"
    by (rule filter_voice_models_subset_all)
  have hd_sub: "\<And>g loc ts. set (filter_voice_models [v] g loc ts) \<subseteq> set (model_names v)"
    by (auto simp: filter_voice_models_single)
  have split: "\<And>g loc ts. filter_voice_models (v # vs) g loc ts =
      filter_voice_models [v] g loc ts @ filter_voice_models vs g loc ts"
    by (simp add: filter_voice_models_Cons filter_voice_models_Nil)
  show ?case
    unfolding split set_append
    using Cons.IH [OF d] single_intersection [of v g loc ts] disj
      sub [of g None None] sub [of None loc None] sub [of None None ts]
      hd_sub [of g None None] hd_sub [of None loc None] hd_sub [of None None ts]
    by blast
qed

lemma filter_loop_empty_gender:
  "filter_loop vs (Some []) loc ts results = filter_loop vs None loc ts results"
  by (induction vs arbitrary: results) simp_all

lemma filter_loop_empty_locale:
  "filter_loop vs g (Some []) ts results = filter_loop vs g None ts results"
  by (induction vs arbitrary: results) simp_all

lemma filter_loop_empty_tags:
  "filter_loop vs g loc (Some []) results = filter_loop vs g loc None results"
  by (induction vs arbitrary: results) simp_all

lemma qualifies_gender_cong:
  assumes "equal_ignoring_case g g'"
  shows "qualifies (Some g) loc ts v = qualifies (Some g') loc ts v"
proof -
  from assms have l: "lower g = lower g'" by (simp add: lower_eq_iff)
  from assms have e: "g = [] \<longleftrightarrow> g' = []"
    by (auto simp: equal_ignoring_case_def)
  have "equal_ignoring_case (gender v) g \<longleftrightarrow> equal_ignoring_case (gender v) g'"
    using l by (simp add: lower_eq_iff [symmetric])
  with e show ?thesis
    by (simp add: qualifies_def gender_criterion_def)
qed

lemma qualifies_tags_update:
  "qualifies g loc None (v\<lparr>tags := tgs\<rparr>) = qualifies g loc None v"
  by (simp add: qualifies_def gender_criterion_def locale_criterion_def tags_criterion_def
      split: option.splits)

subsection \<open>The loop on the voices of the tests\<close>

lemma mock_voices_unfiltered:
  "filter_voice_models [mock_voice1, mock_voice2] None None None = [''voice1'', ''voice2'']"
  by code_simp

lemma mock_voices_distinct:
  "distinct (filter_voice_models [mock_voice1, mock_voice2] None None None)"
  by code_simp

lemma mock_voices_male_en_deep:
  "filter_voice_models [mock_voice1, mock_voice2] (Some ''male'') (Some ''en-US'')
     (Some [''timbre:deep'']) = [''voice1'']"
  by code_simp

lemma mixed_case_equal: "equal_ignoring_case ''Female'' ''fEMALE''"
  by code_simp

lemma mock_voices_MALE:
  "filter_voice_models [mock_voice1, mock_voice2] (Some ''MALE'') None None = [''voice1'']"
  by code_simp

lemma mock_voice1_unfiltered: "filter_voice_models [mock_voice1] None None None = [''voice1'']"
  by code_simp

lemma mock_voice2_unfiltered: "filter_voice_models [mock_voice2] None None None = [''voice2'']"
  by code_simp

lemma engine_voices_unfiltered:
  "filter_voice_models [engine_voice_a, engine_voice_b] None None None =
     [''simba-english'', ''simba-english'']"
  by code_simp

section \<open>The claims about \<^verbatim>\<open>filter_voice_models\<close>\<close>

text \<open>
  Claim C1, as amended. Each voice is decided on its own, and a voice is included
  (all its model names are appended) exactly when every criterion that is supplied with
  a non-empty value holds for it. For a single voice the names returned are the
  intersection of the names returned under each criterion alone. For a list of voices
  the names returned lie in the intersection of the three per-criterion results, and
  they are equal to it when no model name occurs twice in the unfiltered result.
  Omitting a criterion never narrows the result: the result with the criterion is a
  subsequence of the result without it.
\<close>

theorem filter_and_semantics:
  "filter_voice_models vs g loc ts = concat (map (\<lambda>v. filter_voice_models [v] g loc ts) vs) \<and>
   filter_voice_models [v] g loc ts = (if qualifies g loc ts v then model_names v else []) \<and>
   set (filter_voice_models [v] g loc ts) =
     set (filter_voice_models [v] g None None) \<inter>
     set (filter_voice_models [v] None loc None) \<inter>
     set (filter_voice_models [v] None None ts) \<and>
   set (filter_voice_models vs g loc ts) \<subseteq>
     set (filter_voice_models vs g None None) \<inter>
     set (filter_voice_models vs None loc None) \<inter>
     set (filter_voice_models vs None None ts) \<and>
   (distinct (filter_voice_models vs None None None) \<longrightarrow>
     set (filter_voice_models vs g loc ts) =
       set (filter_voice_models vs g None None) \<inter>
       set (filter_voice_models vs None loc None) \<inter>
       set (filter_voice_models vs None None ts)) \<and>
   subseq (filter_voice_models vs g loc ts) (filter_voice_models vs None loc ts) \<and>
   subseq (filter_voice_models vs g loc ts) (filter_voice_models vs g None ts) \<and>
   subseq (filter_voice_models vs g loc ts) (filter_voice_models vs g loc None)"
proof -
  have a: "filter_voice_models vs g loc ts =
      concat (map (\<lambda>v. filter_voice_models [v] g loc ts) vs)"
    by (induction vs) (simp_all add: filter_voice_models_Nil filter_voice_models_Cons)
  note b = filter_voice_models_single [of v g loc ts]
  note c = single_intersection [of v g loc ts]
  note d = subset_intersection [of vs g loc ts]
  have e: "distinct (filter_voice_models vs None None None) \<longrightarrow>
     set (filter_voice_models vs g loc ts) =
       set (filter_voice_models vs g None None) \<inter>
       set (filter_voice_models vs None loc None) \<inter>
       set (filter_voice_models vs None None ts)"
    using distinct_intersection [of vs g loc ts] by blast
  have f1: "subseq (filter_voice_models vs g loc ts) (filter_voice_models vs None loc ts)"
    by (rule subseq_filter_voice_models) (rule qualifies_drop)
  have f2: "subseq (filter_voice_models vs g loc ts) (filter_voice_models vs g None ts)"
    by (rule subseq_filter_voice_models) (rule qualifies_drop)
  have f3: "subseq (filter_voice_models vs g loc ts) (filter_voice_models vs g loc None)"
    by (rule subseq_filter_voice_models) (rule qualifies_drop)
  from a b c d e f1 f2 f3 show ?thesis by blast
qed

theorem filter_and_semantics_witness:
  "distinct (filter_voice_models [mock_voice1, mock_voice2] None None None) \<and>
   set (filter_voice_models [mock_voice1, mock_voice2] (Some ''male'') (Some ''en-US'')
          (Some [''timbre:deep''])) =
     set (filter_voice_models [mock_voice1, mock_voice2] (Some ''male'') None None) \<inter>
     set (filter_voice_models [mock_voice1, mock_voice2] None (Some ''en-US'') None) \<inter>
     set (filter_voice_models [mock_voice1, mock_voice2] None None (Some [''timbre:deep''])) \<and>
   filter_voice_models [mock_voice1, mock_voice2] (Some ''male'') (Some ''en-US'')
     (Some [''timbre:deep'']) = [''voice1'']"
proof -
  have "set (filter_voice_models [mock_voice1, mock_voice2] (Some ''male'') (Some ''en-US'')
          (Some [''timbre:deep''])) =
     set (filter_voice_models [mock_voice1, mock_voice2] (Some ''male'') None None) \<inter>
     set (filter_voice_models [mock_voice1, mock_voice2] None (Some ''en-US'') None) \<inter>
     set (filter_voice_models [mock_voice1, mock_voice2] None None (Some [''timbre:deep'']))"
    using filter_and_semantics [of "[mock_voice1, mock_voice2]" "Some ''male''"
        "Some ''en-US''" "Some [''timbre:deep'']" mock_voice1,
        THEN conjunct2, THEN conjunct2, THEN conjunct2, THEN conjunct2, THEN conjunct1]
      mock_voices_distinct
    by (rule mp)
  with mock_voices_distinct mock_voices_male_en_deep show ?thesis
    by (intro conjI)
qed

text \<open>
  Claim C1 as it is stated fails on names: two voices with a model of the same name,
  one male without the locale, the other female with it. No voice is male and has the
  locale, so the combined result is empty, yet the name is in each per-criterion result.
\<close>

theorem intersection_of_results_counterexample:
  "set (filter_voice_models [engine_voice_a, engine_voice_b] (Some ''male'') (Some ''en-US'') None) \<noteq>
     set (filter_voice_models [engine_voice_a, engine_voice_b] (Some ''male'') None None) \<inter>
     set (filter_voice_models [engine_voice_a, engine_voice_b] None (Some ''en-US'') None) \<inter>
     set (filter_voice_models [engine_voice_a, engine_voice_b] None None None)"
  by code_simp

text \<open>
  Claim C6. Filtering by gender "MALE" and by gender "male" gives the same result for
  every list of voices and every choice of the other criteria. More generally two
  gender values that are equal ignoring case give the same result, and a voice passes a
  non-empty gender value exactly when its own gender equals that value ignoring case.
\<close>

theorem gender_case_insensitive:
  "filter_voice_models vs (Some ''MALE'') loc ts = filter_voice_models vs (Some ''male'') loc ts \<and>
   (equal_ignoring_case g g' \<longrightarrow>
      filter_voice_models vs (Some g) loc ts = filter_voice_models vs (Some g') loc ts) \<and>
   (g \<noteq> [] \<longrightarrow>
      filter_voice_models [v] (Some g) loc ts =
        (if equal_ignoring_case (gender v) g then filter_voice_models [v] None loc ts else []))"
proof -
  have "lower ''MALE'' = lower ''male''" by code_simp
  then have "equal_ignoring_case ''MALE'' ''male''" by (simp only: lower_eq_iff)
  then have a: "filter_voice_models vs (Some ''MALE'') loc ts =
      filter_voice_models vs (Some ''male'') loc ts"
    by (simp add: filter_voice_models_concat qualifies_gender_cong cong: filter_cong)
  have b: "equal_ignoring_case g g' \<longrightarrow>
      filter_voice_models vs (Some g) loc ts = filter_voice_models vs (Some g') loc ts"
    by (simp add: filter_voice_models_concat qualifies_gender_cong cong: filter_cong)
  have c: "g \<noteq> [] \<longrightarrow>
      filter_voice_models [v] (Some g) loc ts =
        (if equal_ignoring_case (gender v) g then filter_voice_models [v] None loc ts else [])"
    by (simp add: filter_voice_models_single qualifies_def gender_criterion_def)
  from a b c show ?thesis by blast
qed

theorem gender_case_insensitive_witness:
  "equal_ignoring_case ''Female'' ''fEMALE'' \<and>
   filter_voice_models [mock_voice1, mock_voice2] (Some ''Female'') None None =
     filter_voice_models [mock_voice1, mock_voice2] (Some ''fEMALE'') None None \<and>
   filter_voice_models [mock_voice1, mock_voice2] (Some ''male'') None None = [''voice1'']"
proof -
  note t = gender_case_insensitive [of "[mock_voice1, mock_voice2]" None None "''Female''"
      "''fEMALE''" mock_voice1]
  have a: "filter_voice_models [mock_voice1, mock_voice2] (Some ''Female'') None None =
     filter_voice_models [mock_voice1, mock_voice2] (Some ''fEMALE'') None None"
    using t [THEN conjunct2, THEN conjunct1] mixed_case_equal by (rule mp)
  have b: "filter_voice_models [mock_voice1, mock_voice2] (Some ''male'') None None = [''voice1'']"
    using t [THEN conjunct1] mock_voices_MALE by (rule trans [OF sym])
  from mixed_case_equal a b show ?thesis by (intro conjI)
qed

text \<open>
  Claim C7. For a non-empty list of requested tags, a voice passes the tag criterion
  exactly when every requested tag is a member of the voice's tags: then the result is
  what it would be without the criterion, otherwise the voice contributes nothing. Tags
  of the voice beyond the requested ones never disqualify it.
\<close>

theorem tag_subset_law:
  assumes "ts \<noteq> []"
  shows "filter_voice_models [v] g loc (Some ts) =
           (if \<forall>tag \<in> set ts. tag \<in> set (tags v)
            then filter_voice_models [v] g loc None else []) \<and>
         ((\<forall>tag \<in> set ts. tag \<in> set (tags v)) \<and> set (tags v) \<subseteq> set tgs \<longrightarrow>
            filter_voice_models [v\<lparr>tags := tgs\<rparr>] g loc (Some ts) =
              filter_voice_models [v] g loc None) \<and>
         filter_voice_models vs None None (Some ts) =
           concat (map model_names (filter (\<lambda>v. \<forall>tag \<in> set ts. tag \<in> set (tags v)) vs))"
proof -
  have q: "\<And>v. qualifies g loc (Some ts) v \<longleftrightarrow>
      qualifies g loc None v \<and> (\<forall>tag \<in> set ts. tag \<in> set (tags v))"
    using assms by (auto simp: qualifies_def tags_criterion_def)
  have q0: "qualifies None None (Some ts) = (\<lambda>v. \<forall>tag \<in> set ts. tag \<in> set (tags v))"
    using assms by (auto simp: qualifies_def tags_criterion_def gender_criterion_def
        locale_criterion_def fun_eq_iff)
  have a: "filter_voice_models [v] g loc (Some ts) =
           (if \<forall>tag \<in> set ts. tag \<in> set (tags v)
            then filter_voice_models [v] g loc None else [])"
    by (simp add: filter_voice_models_single q)
  have b: "(\<forall>tag \<in> set ts. tag \<in> set (tags v)) \<and> set (tags v) \<subseteq> set tgs \<longrightarrow>
            filter_voice_models [v\<lparr>tags := tgs\<rparr>] g loc (Some ts) =
              filter_voice_models [v] g loc None"
    by (auto simp: filter_voice_models_single q qualifies_tags_update model_names_def)
  have c: "filter_voice_models vs None None (Some ts) =
           concat (map model_names (filter (\<lambda>v. \<forall>tag \<in> set ts. tag \<in> set (tags v)) vs))"
    by (simp add: filter_voice_models_concat q0)
  from a b c show ?thesis by blast
qed

theorem tag_subset_law_witness:
  "[''timbre:deep''] \<noteq> [] \<and>
   filter_voice_models [mock_voice1] None None (Some [''timbre:deep'']) = [''voice1''] \<and>
   filter_voice_models [mock_voice2] None None (Some [''timbre:deep'']) = []"
proof -
  have ne: "[''timbre:deep''] \<noteq> []" by (rule list.distinct(2))
  have a: "filter_voice_models [mock_voice1] None None (Some [''timbre:deep'']) = [''voice1'']"
    using tag_subset_law [OF ne, of mock_voice1 None None "[]" "[]", THEN conjunct1]
      mock_voice1_unfiltered
    by (simp add: mock_voice1_def)
  have b: "filter_voice_models [mock_voice2] None None (Some [''timbre:deep'']) = []"
    using tag_subset_law [OF ne, of mock_voice2 None None "[]" "[]", THEN conjunct1]
    by (simp add: mock_voice2_def)
  from ne a b show ?thesis by (intro conjI)
qed

text \<open>
  Claim C8, as amended. For a non-empty requested locale, a voice passes the locale
  criterion exactly when some model of it has some language whose locale is that string,
  compared by equality ("en-us" does not match "en-US").
\<close>

theorem locale_exact_match:
  assumes "loc \<noteq> []"
  shows "filter_voice_models [v] g (Some loc) ts =
           (if \<exists>m \<in> set (models v). \<exists>l \<in> set (languages m). lang_locale l = loc
            then filter_voice_models [v] g None ts else []) \<and>
         filter_voice_models vs None (Some loc) None =
           concat (map model_names
             (filter (\<lambda>v. \<exists>m \<in> set (models v). \<exists>l \<in> set (languages m). lang_locale l = loc) vs))"
proof -
  have q: "\<And>v. qualifies g (Some loc) ts v \<longleftrightarrow>
      qualifies g None ts v \<and>
      (\<exists>m \<in> set (models v). \<exists>l \<in> set (languages m). lang_locale l = loc)"
    using assms by (auto simp: qualifies_def locale_criterion_def)
  have q0: "qualifies None (Some loc) None =
      (\<lambda>v. \<exists>m \<in> set (models v). \<exists>l \<in> set (languages m). lang_locale l = loc)"
    using assms by (auto simp: qualifies_def tags_criterion_def gender_criterion_def
        locale_criterion_def fun_eq_iff)
  have a: "filter_voice_models [v] g (Some loc) ts =
           (if \<exists>m \<in> set (models v). \<exists>l \<in> set (languages m). lang_locale l = loc
            then filter_voice_models [v] g None ts else [])"
    by (simp add: filter_voice_models_single q)
  have c: "filter_voice_models vs None (Some loc) None =
           concat (map model_names
             (filter (\<lambda>v. \<exists>m \<in> set (models v). \<exists>l \<in> set (languages m). lang_locale l = loc) vs))"
    by (simp add: filter_voice_models_concat q0)
  from a c show ?thesis by blast
qed

theorem locale_exact_match_witness:
  "''en-US'' \<noteq> [] \<and>
   filter_voice_models [mock_voice1] None (Some ''en-US'') None = [''voice1''] \<and>
   filter_voice_models [mock_voice1] None (Some ''en-us'') None = []"
proof -
  have ne: "''en-US'' \<noteq> []" by (rule list.distinct(2))
  have ne': "''en-us'' \<noteq> []" by (rule list.distinct(2))
  have a: "filter_voice_models [mock_voice1] None (Some ''en-US'') None = [''voice1'']"
    using locale_exact_match [OF ne, of mock_voice1 None None "[]", THEN conjunct1]
      mock_voice1_unfiltered
    by (simp add: mock_voice1_def)
  have b: "filter_voice_models [mock_voice1] None (Some ''en-us'') None = []"
    using locale_exact_match [OF ne', of mock_voice1 None None "[]", THEN conjunct1]
    by (simp add: mock_voice1_def)
  from ne a b show ?thesis by (intro conjI)
qed

text \<open>
  Claim C8 as it is stated fails for the empty string, which the guard of line 153
  treats as no locale at all: the voice is returned though none of its languages has
  the empty locale.
\<close>

theorem empty_locale_counterexample:
  "filter_voice_models [mock_voice1] None (Some []) None = [''voice1''] \<and>
   \<not> (\<exists>m \<in> set (models mock_voice1). \<exists>l \<in> set (languages m). lang_locale l = [])"
  by (simp add: filter_voice_models_def mock_voice1_def)

text \<open>
  Claim C9. The result is made of model names only: it is the concatenation, over the
  qualifying voices in their original order, of the names of all their models in their
  original order. Every element is the name of a model of a qualifying voice, the
  length is the number of models of the qualifying voices (nothing is deduplicated), and
  the result on a concatenation of two lists is the concatenation of the results.
\<close>

theorem result_is_model_names:
  "filter_voice_models vs g loc ts =
     concat (map (\<lambda>v. map name (models v)) (filter (qualifies g loc ts) vs)) \<and>
   (\<forall>n \<in> set (filter_voice_models vs g loc ts).
      \<exists>v \<in> set vs. \<exists>m \<in> set (models v). qualifies g loc ts v \<and> n = name m) \<and>
   length (filter_voice_models vs g loc ts) =
     sum_list (map (\<lambda>v. length (models v)) (filter (qualifies g loc ts) vs)) \<and>
   filter_voice_models (vs @ ws) g loc ts =
     filter_voice_models vs g loc ts @ filter_voice_models ws g loc ts"
proof -
  have a: "filter_voice_models vs g loc ts =
     concat (map (\<lambda>v. map name (models v)) (filter (qualifies g loc ts) vs))"
    using filter_voice_models_concat [of vs g loc ts]
    by (simp add: model_names_def [abs_def])
  have b: "\<forall>n \<in> set (filter_voice_models vs g loc ts).
      \<exists>v \<in> set vs. \<exists>m \<in> set (models v). qualifies g loc ts v \<and> n = name m"
    unfolding a by auto
  have c: "length (filter_voice_models vs g loc ts) =
     sum_list (map (\<lambda>v. length (models v)) (filter (qualifies g loc ts) vs))"
    unfolding a by (simp add: length_concat comp_def)
  note d = filter_voice_models_append [of vs ws g loc ts]
  from a b c d show ?thesis by blast
qed

theorem result_is_model_names_witness:
  "filter_voice_models [engine_voice_a, engine_voice_b] None None None =
     [''simba-english'', ''simba-english''] \<and>
   length (filter_voice_models [engine_voice_a, engine_voice_b] None None None) =
     sum_list (map (\<lambda>v. length (models v))
       (filter (qualifies None None None) [engine_voice_a, engine_voice_b]))"
  using result_is_model_names [of "[engine_voice_a, engine_voice_b]" None None None "[]",
      THEN conjunct2, THEN conjunct2, THEN conjunct1]
    engine_voices_unfiltered
  by (intro conjI)

text \<open>
  Claim C10. A gender that is the empty string, or tags that are the empty list,
  behave as if the criterion were omitted; so does a locale that is the empty string.
\<close>

theorem falsy_criterion_is_omitted:
  "filter_voice_models vs (Some []) loc ts = filter_voice_models vs None loc ts \<and>
   filter_voice_models vs g loc (Some []) = filter_voice_models vs g loc None \<and>
   filter_voice_models vs g (Some []) ts = filter_voice_models vs g None ts"
  by (simp add: filter_voice_models_def filter_loop_empty_gender filter_loop_empty_locale
      filter_loop_empty_tags)

theorem falsy_criterion_is_omitted_witness:
  "filter_voice_models [mock_voice1, mock_voice2] (Some []) None None = [''voice1'', ''voice2''] \<and>
   filter_voice_models [mock_voice1, mock_voice2] None None (Some []) = [''voice1'', ''voice2'']"
  using falsy_criterion_is_omitted [of "[mock_voice1, mock_voice2]" None None None]
    mock_voices_unfiltered
  by simp

section \<open>Properties of the request handler\<close>

lemma speech_with_fallback_first:
  assumes "text_to_audio_speechify T s (files w) = (Returns r, fs1)"
  shows "speech_with_fallback T s w = (Returns r, w\<lparr>files := fs1, calls := calls w @ [Speechify]\<rparr>)"
  using assms by (simp add: speech_with_fallback_def invoke_def)

lemma speech_with_fallback_second:
  assumes "text_to_audio_speechify T s (files w) = (Raises e, fs1)"
    and "text_to_audio_elevenlabs_sdk T s fs1 = (r2, fs2)"
  shows "speech_with_fallback T s w =
     (r2, w\<lparr>files := fs2, calls := calls w @ [Speechify, ElevenLabs],
            stdout := stdout w @ [''Speechify TTS failed, falling back to ElevenLabs: '' @ str e]\<rparr>)"
  using assms by (simp add: speech_with_fallback_def invoke_def)

lemma speech_with_fallback_cases:
  obtains (first) r fs1 where "text_to_audio_speechify T s (files w) = (Returns r, fs1)"
  | (second) e fs1 r2 fs2 where "text_to_audio_speechify T s (files w) = (Raises e, fs1)"
      and "text_to_audio_elevenlabs_sdk T s fs1 = (r2, fs2)"
proof (cases "text_to_audio_speechify T s (files w)")
  case (Pair o1 fs1)
  show ?thesis
  proof (cases o1)
    case (Returns r)
    with Pair show ?thesis by (auto intro: first)
  next
    case (Raises e)
    obtain r2 fs2 where "text_to_audio_elevenlabs_sdk T s fs1 = (r2, fs2)"
      by (cases "text_to_audio_elevenlabs_sdk T s fs1")
    with Pair Raises show ?thesis by (auto intro: second)
  qed
qed

lemma generate_news_audio_world:
  "snd (generate_news_audio T (Returns s) w) = snd (speech_with_fallback T s w)"
  by (cases "speech_with_fallback T s w")
    (simp add: generate_news_audio_def split: outcome.splits option.splits)

lemma generate_news_audio_raised:
  "fst (speech_with_fallback T s w) = Raises e \<Longrightarrow>
   fst (generate_news_audio T (Returns s) w) = HTTPException 500 (str e)"
  by (cases "speech_with_fallback T s w") (simp add: generate_news_audio_def)

lemma generate_news_audio_file:
  assumes "fst (speech_with_fallback T s w) = Returns (Some p)" and "p \<noteq> []"
    and "files (snd (speech_with_fallback T s w)) p = Some (RegularFile bs)"
  shows "fst (generate_news_audio T (Returns s) w) = Response bs"
  using assms
  by (cases "speech_with_fallback T s w")
    (simp add: generate_news_audio_def path_exists_def read_binary_def)

lemma calls_speech_with_fallback:
  "\<exists>cs. calls (snd (speech_with_fallback T s w)) = calls w @ cs \<and>
        set cs \<subseteq> {Speechify, ElevenLabs}"
proof (cases rule: speech_with_fallback_cases [of T s w])
  case (first r fs1)
  then show ?thesis by (simp add: speech_with_fallback_first)
next
  case (second e fs1 r2 fs2)
  then show ?thesis by (simp add: speech_with_fallback_second)
qed

lemma calls_generate_news_audio:
  "\<exists>cs. calls (snd (generate_news_audio T summary w)) = calls w @ cs \<and>
        set cs \<subseteq> {Speechify, ElevenLabs}"
proof (cases summary)
  case (Returns s)
  then show ?thesis
    using calls_speech_with_fallback [of T s w] by (simp add: generate_news_audio_world)
next
  case (Raises e)
  then show ?thesis by (simp add: generate_news_audio_def)
qed





lemma writes_file_contract:
  "p \<noteq> [] \<Longrightarrow> bs \<noteq> [] \<Longrightarrow> honours_persistence_contract (writes_file p bs)"
  by (auto simp: honours_persistence_contract_def writes_file_def)

lemma raises_contract: "honours_persistence_contract (raises e)"
  by (simp add: honours_persistence_contract_def raises_def)






section \<open>The claims about the fallback between speech functions\<close>

text \<open>
  Claim C2. If \<^verbatim>\<open>text_to_audio_speechify\<close> raises (whatever the exception) and
  \<^verbatim>\<open>text_to_audio_elevenlabs_sdk\<close> returns, the value of \<^verbatim>\<open>audio_path\<close> is exactly what
  ElevenLabs returned, the files are those ElevenLabs left, the functions called are
  Speechify and ElevenLabs and no other, and the response carries the bytes of the file
  ElevenLabs returned the path of. If Speechify returns, it is the only function called
  and the response carries the bytes of its file. In no case is a third speech function
  called.
\<close>

theorem fallback_ordering:
  "(text_to_audio_speechify T s (files w) = (Raises e, fs1) \<and>
    text_to_audio_elevenlabs_sdk T s fs1 = (Returns r, fs2) \<longrightarrow>
      fst (speech_with_fallback T s w) = Returns r \<and>
      calls (snd (speech_with_fallback T s w)) = calls w @ [Speechify, ElevenLabs] \<and>
      calls (snd (generate_news_audio T (Returns s) w)) = calls w @ [Speechify, ElevenLabs] \<and>
      files (snd (generate_news_audio T (Returns s) w)) = fs2 \<and>
      (\<forall>p bs. r = Some p \<and> p \<noteq> [] \<and> fs2 p = Some (RegularFile bs) \<longrightarrow>
         fst (generate_news_audio T (Returns s) w) = Response bs)) \<and>
   (text_to_audio_speechify T s (files w) = (Returns r, fs1) \<longrightarrow>
      fst (speech_with_fallback T s w) = Returns r \<and>
      calls (snd (speech_with_fallback T s w)) = calls w @ [Speechify] \<and>
      calls (snd (generate_news_audio T (Returns s) w)) = calls w @ [Speechify] \<and>
      files (snd (generate_news_audio T (Returns s) w)) = fs1 \<and>
      (\<forall>p bs. r = Some p \<and> p \<noteq> [] \<and> fs1 p = Some (RegularFile bs) \<longrightarrow>
         fst (generate_news_audio T (Returns s) w) = Response bs)) \<and>
   (\<exists>cs. calls (snd (generate_news_audio T summary w)) = calls w @ cs \<and>
         set cs \<subseteq> {Speechify, ElevenLabs})"
proof (intro conjI impI allI)
  assume a: "text_to_audio_speechify T s (files w) = (Raises e, fs1) \<and>
    text_to_audio_elevenlabs_sdk T s fs1 = (Returns r, fs2)"
  then have sw: "speech_with_fallback T s w =
     (Returns r, w\<lparr>files := fs2, calls := calls w @ [Speechify, ElevenLabs],
        stdout := stdout w @ [''Speechify TTS failed, falling back to ElevenLabs: '' @ str e]\<rparr>)"
    by (simp add: speech_with_fallback_second)
  show "fst (speech_with_fallback T s w) = Returns r" by (simp add: sw)
  show "calls (snd (speech_with_fallback T s w)) = calls w @ [Speechify, ElevenLabs]"
    by (simp add: sw)
  show "calls (snd (generate_news_audio T (Returns s) w)) = calls w @ [Speechify, ElevenLabs]"
    by (simp add: generate_news_audio_world sw)
  show "files (snd (generate_news_audio T (Returns s) w)) = fs2"
    by (simp add: generate_news_audio_world sw)
  fix p bs
  assume "r = Some p \<and> p \<noteq> [] \<and> fs2 p = Some (RegularFile bs)"
  then show "fst (generate_news_audio T (Returns s) w) = Response bs"
    by (intro generate_news_audio_file [of T s w p bs]) (simp_all add: sw)
next
  assume a: "text_to_audio_speechify T s (files w) = (Returns r, fs1)"
  then have sw: "speech_with_fallback T s w =
     (Returns r, w\<lparr>files := fs1, calls := calls w @ [Speechify]\<rparr>)"
    by (rule speech_with_fallback_first)
  show "fst (speech_with_fallback T s w) = Returns r" by (simp add: sw)
  show "calls (snd (speech_with_fallback T s w)) = calls w @ [Speechify]"
    by (simp add: sw)
  show "calls (snd (generate_news_audio T (Returns s) w)) = calls w @ [Speechify]"
    by (simp add: generate_news_audio_world sw)
  show "files (snd (generate_news_audio T (Returns s) w)) = fs1"
    by (simp add: generate_news_audio_world sw)
  fix p bs
  assume "r = Some p \<and> p \<noteq> [] \<and> fs1 p = Some (RegularFile bs)"
  then show "fst (generate_news_audio T (Returns s) w) = Response bs"
    by (intro generate_news_audio_file [of T s w p bs]) (simp_all add: sw)
next
  show "\<exists>cs. calls (snd (generate_news_audio T summary w)) = calls w @ cs \<and>
         set cs \<subseteq> {Speechify, ElevenLabs}"
    by (rule calls_generate_news_audio)
qed

theorem fallback_ordering_witness:
  "text_to_audio_speechify fallback_functions ''news'' (files empty_world) =
     (Raises (Exn ValueError ''Speechify API key is required''), Map.empty) \<and>
   text_to_audio_elevenlabs_sdk fallback_functions ''news'' Map.empty =
     (Returns (Some ''audio/elevenlabs.mp3''),
      [''audio/elevenlabs.mp3'' \<mapsto> RegularFile [73, 68, 51]]) \<and>
   fst (generate_news_audio fallback_functions (Returns ''news'') empty_world) =
     Response [73, 68, 51] \<and>
   calls (snd (generate_news_audio fallback_functions (Returns ''news'') empty_world)) =
     [Speechify, ElevenLabs] \<and>
   text_to_audio_speechify primary_functions ''news'' (files empty_world) =
     (Returns (Some ''audio/speechify.mp3''),
      [''audio/speechify.mp3'' \<mapsto> RegularFile [73, 68, 51, 4]]) \<and>
   fst (generate_news_audio primary_functions (Returns ''news'') empty_world) =
     Response [73, 68, 51, 4] \<and>
   calls (snd (generate_news_audio primary_functions (Returns ''news'') empty_world)) =
     [Speechify]"
proof -
  have h1: "text_to_audio_speechify fallback_functions ''news'' (files empty_world) =
     (Raises (Exn ValueError ''Speechify API key is required''), Map.empty)"
    by (simp add: fallback_functions_def raises_def empty_world_def)
  have h2: "text_to_audio_elevenlabs_sdk fallback_functions ''news'' Map.empty =
     (Returns (Some ''audio/elevenlabs.mp3''),
      [''audio/elevenlabs.mp3'' \<mapsto> RegularFile [73, 68, 51]])"
    by (simp add: fallback_functions_def writes_file_def)
  have h3: "text_to_audio_speechify primary_functions ''news'' (files empty_world) =
     (Returns (Some ''audio/speechify.mp3''),
      [''audio/speechify.mp3'' \<mapsto> RegularFile [73, 68, 51, 4]])"
    by (simp add: primary_functions_def writes_file_def empty_world_def)
  have c0: "calls empty_world = []" by (simp add: empty_world_def)
  note a = fallback_ordering [of fallback_functions "''news''" empty_world
      "Exn ValueError ''Speechify API key is required''" Map.empty
      "Some ''audio/elevenlabs.mp3''"
      "[''audio/elevenlabs.mp3'' \<mapsto> RegularFile [73, 68, 51]]" "Returns ''news''",
      THEN conjunct1, rule_format, OF conjI, OF h1 h2]
  note b = fallback_ordering [of primary_functions "''news''" empty_world
      "Exn ValueError []" "[''audio/speechify.mp3'' \<mapsto> RegularFile [73, 68, 51, 4]]"
      "Some ''audio/speechify.mp3''" Map.empty "Returns ''news''",
      THEN conjunct2, THEN conjunct1, rule_format, OF h3]
  from a have a1: "fst (generate_news_audio fallback_functions (Returns ''news'') empty_world) =
     Response [73, 68, 51]" by simp
  from a have a2: "calls (snd (generate_news_audio fallback_functions (Returns ''news'')
     empty_world)) = [Speechify, ElevenLabs]" by (simp add: c0)
  from b have b1: "fst (generate_news_audio primary_functions (Returns ''news'') empty_world) =
     Response [73, 68, 51, 4]" by simp
  from b have b2: "calls (snd (generate_news_audio primary_functions (Returns ''news'')
     empty_world)) = [Speechify]" by (simp add: c0)
  from h1 h2 h3 a1 a2 b1 b2 show ?thesis by (intro conjI)
qed




text \<open>
  Claim C5, as amended. \<^verbatim>\<open>text_to_audio_speechify\<close> synthesises and writes the file in one
  call, and the handler of line 47 catches every exception it raises. An \<^verbatim>\<open>IOError\<close>
  raised by it therefore triggers the fallback like any other failure: ElevenLabs is
  called and its outcome is the outcome of the fallback. An \<^verbatim>\<open>IOError\<close> raised by
  \<^verbatim>\<open>text_to_audio_elevenlabs_sdk\<close>, the last of the chain, is fatal for the request: error
  500 with the text of the exception, and no further speech function is called.
\<close>

theorem io_error_fallback:
  "(text_to_audio_speechify T s (files w) = (Raises (Exn IOError msg), fs1) \<and>
    text_to_audio_elevenlabs_sdk T s fs1 = (r2, fs2) \<longrightarrow>
      fst (speech_with_fallback T s w) = r2 \<and>
      calls (snd (speech_with_fallback T s w)) = calls w @ [Speechify, ElevenLabs]) \<and>
   (text_to_audio_speechify T s (files w) = (Raises e1, fs1) \<and>
    text_to_audio_elevenlabs_sdk T s fs1 = (Raises (Exn IOError msg), fs2) \<longrightarrow>
      fst (generate_news_audio T (Returns s) w) = HTTPException 500 msg \<and>
      calls (snd (generate_news_audio T (Returns s) w)) = calls w @ [Speechify, ElevenLabs])"
proof (intro conjI impI)
  assume "text_to_audio_speechify T s (files w) = (Raises (Exn IOError msg), fs1) \<and>
    text_to_audio_elevenlabs_sdk T s fs1 = (r2, fs2)"
  then have sw: "speech_with_fallback T s w =
     (r2, w\<lparr>files := fs2, calls := calls w @ [Speechify, ElevenLabs],
        stdout := stdout w @ [''Speechify TTS failed, falling back to ElevenLabs: '' @
          str (Exn IOError msg)]\<rparr>)"
    by (simp only: speech_with_fallback_second)
  show "fst (speech_with_fallback T s w) = r2" by (simp add: sw)
  show "calls (snd (speech_with_fallback T s w)) = calls w @ [Speechify, ElevenLabs]"
    by (simp add: sw)
next
  assume "text_to_audio_speechify T s (files w) = (Raises e1, fs1) \<and>
    text_to_audio_elevenlabs_sdk T s fs1 = (Raises (Exn IOError msg), fs2)"
  then have sw: "speech_with_fallback T s w =
     (Raises (Exn IOError msg), w\<lparr>files := fs2, calls := calls w @ [Speechify, ElevenLabs],
        stdout := stdout w @ [''Speechify TTS failed, falling back to ElevenLabs: '' @ str e1]\<rparr>)"
    by (simp only: speech_with_fallback_second)
  have "fst (generate_news_audio T (Returns s) w) = HTTPException 500 (str (Exn IOError msg))"
    by (rule generate_news_audio_raised) (simp add: sw)
  then show "fst (generate_news_audio T (Returns s) w) = HTTPException 500 msg" by simp
  show "calls (snd (generate_news_audio T (Returns s) w)) = calls w @ [Speechify, ElevenLabs]"
    by (simp add: generate_news_audio_world sw)
qed

theorem io_error_fallback_witness:
  "text_to_audio_speechify disk_full_functions ''news'' (files empty_world) =
     (Raises (Exn IOError ''[Errno 28] No space left on device''), Map.empty) \<and>
   text_to_audio_elevenlabs_sdk disk_full_functions ''news'' Map.empty =
     (Returns (Some ''audio/elevenlabs.mp3''),
      [''audio/elevenlabs.mp3'' \<mapsto> RegularFile [73, 68, 51]]) \<and>
   fst (speech_with_fallback disk_full_functions ''news'' empty_world) =
     Returns (Some ''audio/elevenlabs.mp3'') \<and>
   text_to_audio_speechify write_failing_functions ''news'' (files empty_world) =
     (Raises (Exn ValueError ''Speechify API key is required''), Map.empty) \<and>
   text_to_audio_elevenlabs_sdk write_failing_functions ''news'' Map.empty =
     (Raises (Exn IOError ''[Errno 13] Permission denied''), Map.empty) \<and>
   fst (generate_news_audio write_failing_functions (Returns ''news'') empty_world) =
     HTTPException 500 ''[Errno 13] Permission denied'' \<and>
   calls (snd (generate_news_audio write_failing_functions (Returns ''news'') empty_world)) =
     [Speechify, ElevenLabs]"
proof -
  have h1: "text_to_audio_speechify disk_full_functions ''news'' (files empty_world) =
     (Raises (Exn IOError ''[Errno 28] No space left on device''), Map.empty)"
    by (simp add: disk_full_functions_def raises_def empty_world_def)
  have h2: "text_to_audio_elevenlabs_sdk disk_full_functions ''news'' Map.empty =
     (Returns (Some ''audio/elevenlabs.mp3''),
      [''audio/elevenlabs.mp3'' \<mapsto> RegularFile [73, 68, 51]])"
    by (simp add: disk_full_functions_def writes_file_def)
  have h3: "text_to_audio_speechify write_failing_functions ''news'' (files empty_world) =
     (Raises (Exn ValueError ''Speechify API key is required''), Map.empty)"
    by (simp add: write_failing_functions_def raises_def empty_world_def)
  have h4: "text_to_audio_elevenlabs_sdk write_failing_functions ''news'' Map.empty =
     (Raises (Exn IOError ''[Errno 13] Permission denied''), Map.empty)"
    by (simp add: write_failing_functions_def raises_def)
  have c0: "calls empty_world = []" by (simp add: empty_world_def)
  note a = io_error_fallback [of disk_full_functions "''news''" empty_world
      "''[Errno 28] No space left on device''" Map.empty
      "Returns (Some ''audio/elevenlabs.mp3'')"
      "[''audio/elevenlabs.mp3'' \<mapsto> RegularFile [73, 68, 51]]" "Exn ValueError []",
      THEN conjunct1, rule_format, OF conjI, OF h1 h2]
  note b = io_error_fallback [of write_failing_functions "''news''" empty_world
      "''[Errno 13] Permission denied''" Map.empty "Returns None" Map.empty
      "Exn ValueError ''Speechify API key is required''",
      THEN conjunct2, rule_format, OF conjI, OF h3 h4]
  from a have a1: "fst (speech_with_fallback disk_full_functions ''news'' empty_world) =
     Returns (Some ''audio/elevenlabs.mp3'')" by simp
  from b have b1: "fst (generate_news_audio write_failing_functions (Returns ''news'')
     empty_world) = HTTPException 500 ''[Errno 13] Permission denied''" by simp
  from b have b2: "calls (snd (generate_news_audio write_failing_functions (Returns ''news'')
     empty_world)) = [Speechify, ElevenLabs]" by (simp add: c0)
  from h1 h2 a1 h3 h4 b1 b2 show ?thesis by (intro conjI)
qed

text \<open>
  Claim C5 as it is stated fails: Speechify cannot write its file and raises an
  \<^verbatim>\<open>IOError\<close>; ElevenLabs is called all the same and the request succeeds with its
  audio.
\<close>

theorem io_error_triggers_fallback_counterexample:
  "text_to_audio_speechify disk_full_functions ''news'' (files empty_world) =
     (Raises (Exn IOError ''[Errno 28] No space left on device''), files empty_world) \<and>
   calls (snd (generate_news_audio disk_full_functions (Returns ''news'') empty_world)) =
     [Speechify, ElevenLabs] \<and>
   fst (generate_news_audio disk_full_functions (Returns ''news'') empty_world) =
     Response [73, 68, 51]"
  by (simp add: generate_news_audio_def speech_with_fallback_def invoke_def
      disk_full_functions_def raises_def writes_file_def empty_world_def path_exists_def
      read_binary_def)

section \<open>The claim about the missing credential\<close>

text \<open>
  Claim C4. With no credential configured, \<open>synthesize_primary\<close> fails with a
  \<open>ConfigError\<close> whose message, "Speechify API key is required", contains "API key is
  required"; the failure is not a \<open>ProviderError\<close>; and no network call has been made
  (with a credential, one is).
\<close>

theorem missing_credential_is_config_error:
  "fst (synthesize_primary None remote persist req) =
     Inl (ConfigError ''Speechify API key is required'') \<and>
   sublist ''API key is required'' ''Speechify API key is required'' \<and>
   (\<forall>m. fst (synthesize_primary None remote persist req) \<noteq> Inl (ProviderError m)) \<and>
   snd (synthesize_primary None remote persist req) = 0 \<and>
   snd (synthesize_primary (Some key) remote persist req) = 1"
proof -
  have "''Speechify API key is required'' = ''Speechify '' @ ''API key is required'' @ []"
    by simp
  then have "sublist ''API key is required'' ''Speechify API key is required''"
    unfolding sublist_def by blast
  then show ?thesis
    by (simp add: synthesize_primary_def split: sum.splits)
qed

theorem missing_credential_is_config_error_witness:
  "synthesize_primary None (\<lambda>key req. Inr [73, 68, 51]) (\<lambda>audio fmt dir. Inr ''audio/out.mp3'')
     (default_request ''hello'') =
     (Inl (ConfigError ''Speechify API key is required''), 0) \<and>
   synthesize_primary (Some ''sk-test'') (\<lambda>key req. Inr [73, 68, 51])
     (\<lambda>audio fmt dir. Inr ''audio/out.mp3'') (default_request ''hello'') =
     (Inr ''audio/out.mp3'', 1)"
proof -
  note t = missing_credential_is_config_error [of "\<lambda>key req. Inr [73, 68, 51]"
      "\<lambda>audio fmt dir. Inr ''audio/out.mp3''" "default_request ''hello''" "''sk-test''"]
  have a: "synthesize_primary None (\<lambda>key req. Inr [73, 68, 51])
     (\<lambda>audio fmt dir. Inr ''audio/out.mp3'') (default_request ''hello'') =
     (Inl (ConfigError ''Speechify API key is required''), 0)"
    using t by (simp add: prod_eq_iff)
  have b: "synthesize_primary (Some ''sk-test'') (\<lambda>key req. Inr [73, 68, 51])
     (\<lambda>audio fmt dir. Inr ''audio/out.mp3'') (default_request ''hello'') =
     (Inr ''audio/out.mp3'', 1)"
    by (simp add: synthesize_primary_def)
  from a b show ?thesis by (intro conjI)
qed

end
